theory Spec2Isabelle
  imports Complex_Main "HOL-Library.Log_Nat" "HOL-Library.Signed_Division"
begin

section \<open>The schedule document model (main.go)\<close>

text \<open>
  The structs of main.go as records. Every field is a Go string (a byte sequence), so
  \<open>length\<close> is Go's \<open>len\<close>. The zero value \<open>Event{}\<close> is \<open>Event0\<close>.
\<close>

record Event =
  AT :: string
  ET :: string
  SRC :: string

definition Event0 :: Event where
  "Event0 = \<lparr>AT = [], ET = [], SRC = []\<rparr>"

record Location =
  TPL :: string
  PTA :: string
  PTD :: string
  WTA :: string
  WTD :: string
  WTP :: string
  Arrival :: Event
  Departure :: Event
  Pass :: Event

record Timestamp =
  RID :: string
  SSD :: string
  UID :: string
  Location :: "Location list"

record UniqueResponse =
  UO :: string
  TS :: Timestamp

record Message =
  XMLNS :: string
  XMLNS2 :: string
  XMLNS3 :: string
  Timestamp :: string
  Version :: string
  UR :: UniqueResponse

section \<open>Errors\<close>

text \<open>
  \<open>ParseError\<close> is the \<open>*time.ParseError\<close> that \<open>time.Parse\<close> returns: layout, value,
  layout element, value element and message. \<open>FeedError\<close> stands for the errors of the
  transport, of the decompression and of \<open>xml.Unmarshal\<close> in \<open>main\<close>.
  Every error of main.go ends in \<open>log.Fatal(err)\<close>, which prints the error and exits the
  process: a function that can reach \<open>log.Fatal\<close> returns \<open>error + 'a\<close>, and \<open>Inl err\<close>
  means that the process has exited with \<open>err\<close>.
\<close>

datatype parse_message = NoMessage | OutOfRange string | ExtraText string

datatype error =
  ParseError string string string string parse_message
| FeedError string

section \<open>Go's time.Parse on the layouts of Delay\<close>

text \<open>
  \<open>Delay\<close> calls \<open>time.Parse\<close> of Go's standard library with the layouts
  \<open>"15:04"\<close>, \<open>"15:04:00"\<close> and \<open>"15:04:05"\<close>. The library is modelled for the layout
  elements that these strings are made of: \<open>15\<close> (hour, one or two digits), \<open>04\<close>
  (minute, two digits), \<open>05\<close> (second, two digits, with an optional fraction in the
  value) and literal text. The other elements of Go layouts (dates, 12-hour clock, zones,
  fractions in the layout) cannot be written with the characters of the three layouts
  in the positions where they stand, and they are left out.
\<close>

datatype std = stdHour | stdZeroMinute | stdZeroSecond

definition isDigit :: "string \<Rightarrow> nat \<Rightarrow> bool" where
  "isDigit s i = (i < length s \<and> 48 \<le> (of_char (s ! i) :: nat) \<and> (of_char (s ! i) :: nat) \<le> 57)"

definition digit :: "char \<Rightarrow> int" where
  "digit c = int (of_char c) - 48"

text \<open>
  \<open>nextStdChunk layout\<close> finds the first layout element: the text before it, the
  element (\<open>None\<close> when there is none) and the text after it. In \<open>"15:04:00"\<close> the
  final \<open>":00"\<close> holds no element (\<open>0\<close> starts one only before \<open>1\<close> to \<open>6\<close>, or as
  \<open>002\<close>), so it is literal text.
\<close>

fun nextStdChunk :: "string \<Rightarrow> string \<times> std option \<times> string" where
  "nextStdChunk [] = ([], None, [])"
| "nextStdChunk (c # cs) =
     (if c = CHR ''1'' \<and> take 1 cs = ''5'' then ([], Some stdHour, drop 1 cs)
      else if c = CHR ''0'' \<and> take 1 cs = ''4'' then ([], Some stdZeroMinute, drop 1 cs)
      else if c = CHR ''0'' \<and> take 1 cs = ''5'' then ([], Some stdZeroSecond, drop 1 cs)
      else (case nextStdChunk cs of (prefix, s, suffix) \<Rightarrow> (c # prefix, s, suffix)))"

text \<open>
  \<open>getnum s fixed\<close> reads one or two digits (exactly two when \<open>fixed\<close>); \<open>None\<close> is
  \<open>errBad\<close>, on which Go returns the number 0 and the string unchanged.
\<close>

definition getnum :: "string \<Rightarrow> bool \<Rightarrow> (int \<times> string) option" where
  "getnum s fixed =
     (if \<not> isDigit s 0 then None
      else if \<not> isDigit s 1 then
        (if fixed then None else Some (digit (s ! 0), drop 1 s))
      else Some (digit (s ! 0) * 10 + digit (s ! 1), drop 2 s))"

text \<open>
  \<open>skip value prefix\<close> removes the literal text \<open>prefix\<close> from the front of \<open>value\<close>; a
  run of spaces in the prefix matches any run of spaces. It returns the value where it
  stopped, and whether the whole prefix matched.
\<close>

function skip :: "string \<Rightarrow> string \<Rightarrow> string \<times> bool" where
  "skip v [] = (v, True)"
| "skip v (p # ps) =
     (if p = CHR '' '' then
        (if v \<noteq> [] \<and> hd v \<noteq> CHR '' '' then (v, False)
         else skip (dropWhile (\<lambda>c. c = CHR '' '') v) (dropWhile (\<lambda>c. c = CHR '' '') ps))
      else if v = [] \<or> hd v \<noteq> p then (v, False)
      else skip (tl v) ps)"
  by pat_completeness auto
termination
  by (relation "measure (\<lambda>(v, ps). length ps)")
     (auto simp: less_Suc_eq_le length_dropWhile_le)

text \<open>
  The fraction of a second in a value, \<open>value\<close> starting at the separator and \<open>nbytes\<close>
  counting the separator and the digits after it: at most nine digits are read, scaled to
  nanoseconds (Go 1.17 and later). The caller has checked that the bytes read are digits.
\<close>

definition atoi :: "string \<Rightarrow> int" where
  "atoi s = foldl (\<lambda>n c. n * 10 + digit c) 0 s"

definition parseNanoseconds :: "string \<Rightarrow> nat \<Rightarrow> int" where
  "parseNanoseconds v nbytes =
     (let nbytes = min nbytes 10 in atoi (take (nbytes - 1) (drop 1 v)) * 10 ^ (10 - nbytes))"

definition commaOrPeriod :: "char \<Rightarrow> bool" where
  "commaOrPeriod c = (c = CHR ''.'' \<or> c = CHR '','')"

text \<open>
  A parsed time. With the layouts above \<open>time.Parse\<close> sets only the clock; the date is
  1 January of year 0, in UTC, for every result.
\<close>

record Time =
  hour :: int
  minute :: int
  sec :: int
  nsec :: int

definition Time0 :: Time where
  "Time0 = \<lparr>hour = 0, minute = 0, sec = 0, nsec = 0\<rparr>"

lemma nextStdChunk_shorter:
  "nextStdChunk layout = (prefix, Some s, suffix) \<Longrightarrow> length suffix < length layout"
  by (induction layout arbitrary: prefix) (auto split: if_splits prod.splits)

text \<open>
  The loop of \<open>time.Parse\<close>: \<open>alayout\<close> and \<open>avalue\<close> are the arguments as given (for the
  error), \<open>layout\<close> and \<open>v\<close> what is left of them, \<open>t\<close> the fields read so far.
\<close>

function parseLoop :: "string \<Rightarrow> string \<Rightarrow> string \<Rightarrow> string \<Rightarrow> Time \<Rightarrow> error + Time" where
  "parseLoop alayout avalue layout v t =
     (case nextStdChunk layout of (prefix, st, suffix) \<Rightarrow>
        let stdstr = take (length layout - length prefix - length suffix) (drop (length prefix) layout)
        in (case skip v prefix of
          (v1, False) \<Rightarrow> Inl (ParseError alayout avalue prefix v1 NoMessage)
        | (v1, True) \<Rightarrow>
           (case st of
              None \<Rightarrow>
                if v1 \<noteq> [] then Inl (ParseError alayout avalue [] v1 (ExtraText v1))
                else Inr t
            | Some stdHour \<Rightarrow>
               (case getnum v1 False of
                  None \<Rightarrow> Inl (ParseError alayout avalue stdstr v1 NoMessage)
                | Some (h, v2) \<Rightarrow>
                    if h < 0 \<or> 24 \<le> h
                    then Inl (ParseError alayout avalue stdstr v2 (OutOfRange ''hour''))
                    else parseLoop alayout avalue suffix v2 (t\<lparr>hour := h\<rparr>))
            | Some stdZeroMinute \<Rightarrow>
               (case getnum v1 True of
                  None \<Rightarrow> Inl (ParseError alayout avalue stdstr v1 NoMessage)
                | Some (m, v2) \<Rightarrow>
                    if m < 0 \<or> 60 \<le> m
                    then Inl (ParseError alayout avalue stdstr v2 (OutOfRange ''minute''))
                    else parseLoop alayout avalue suffix v2 (t\<lparr>minute := m\<rparr>))
            | Some stdZeroSecond \<Rightarrow>
               (case getnum v1 True of
                  None \<Rightarrow> Inl (ParseError alayout avalue stdstr v1 NoMessage)
                | Some (s, v2) \<Rightarrow>
                    if s < 0 \<or> 60 \<le> s
                    then Inl (ParseError alayout avalue stdstr v2 (OutOfRange ''second''))
                    else if 2 \<le> length v2 \<and> commaOrPeriod (v2 ! 0) \<and> isDigit v2 1 then
                      (let n = 2 + length (takeWhile (\<lambda>c. isDigit [c] 0) (drop 2 v2))
                      in parseLoop alayout avalue suffix (drop n v2)
                           (t\<lparr>sec := s, nsec := parseNanoseconds v2 n\<rparr>))
                    else parseLoop alayout avalue suffix v2 (t\<lparr>sec := s\<rparr>)))))"
  by pat_completeness auto
termination
  by (relation "measure (\<lambda>(alayout, avalue, layout, v, t). length layout)")
     (auto dest: nextStdChunk_shorter [OF sym])

definition Parse :: "string \<Rightarrow> string \<Rightarrow> error + Time" where
  "Parse layout v = parseLoop layout v layout v Time0"

declare parseLoop.simps [simp del]

section \<open>Durations and float64\<close>

text \<open>
  \<open>Sub t u\<close> is \<open>t.Sub(u)\<close>, a \<open>Duration\<close>: the difference in nanoseconds. Both times lie
  on the same day, so the difference is below 24 hours and the saturation of \<open>Sub\<close> at
  the ends of int64 is never reached.
\<close>

type_synonym Duration = int

definition nanos :: "Time \<Rightarrow> int" where
  "nanos t = ((hour t * 60 + minute t) * 60 + sec t) * 1000000000 + nsec t"

definition Sub :: "Time \<Rightarrow> Time \<Rightarrow> Duration" where
  "Sub t u = nanos t - nanos u"

text \<open>
  A finite float64 is the rational number it stands for. \<open>float64 q\<close> rounds \<open>q\<close> to the
  nearest number with a 53-bit mantissa, ties to the even mantissa, as every float64
  operation and conversion of Go does. The range of the exponent is not modelled: the
  numbers that \<open>Minutes\<close> meets here are 0 or lie between \<open>2 ^ -36\<close> and \<open>2 ^ 36\<close> in
  magnitude, far from overflow and from the subnormal numbers.
\<close>

definition pow2 :: "int \<Rightarrow> rat" where
  "pow2 e = (if 0 \<le> e then 2 ^ nat e else 1 / 2 ^ nat (- e))"

text \<open>\<open>ilog2 q\<close> is the integer \<open>e\<close> with \<open>2 ^ e \<le> q < 2 ^ (e + 1)\<close>, for \<open>0 < q\<close>.\<close>

definition ilog2 :: "rat \<Rightarrow> int" where
  "ilog2 q =
     (case quotient_of q of (a, b) \<Rightarrow>
        let e0 = bitlen a - bitlen b
        in if pow2 e0 \<le> q then e0 else e0 - 1)"

definition round_even :: "rat \<Rightarrow> int" where
  "round_even x =
     (let n = \<lfloor>x\<rfloor>; r = x - of_int n
      in if r < 1 / 2 then n else if 1 / 2 < r then n + 1 else if even n then n else n + 1)"

definition float64 :: "rat \<Rightarrow> rat" where
  "float64 q =
     (if q = 0 then 0
      else let u = pow2 (ilog2 \<bar>q\<bar> - 52) in of_int (round_even (q / u)) * u)"

text \<open>
  \<open>Duration.Minutes\<close>:
  \<^verbatim>\<open>min := d / Minute; nsec := d % Minute; return float64(min) + float64(nsec)/(60*1e9)\<close>
  with Go's integer division, which truncates towards zero.
\<close>

definition Minute :: Duration where
  "Minute = 60 * 1000000000"

definition Minutes :: "Duration \<Rightarrow> rat" where
  "Minutes d =
     (let m = d sdiv Minute; ns = d smod Minute
      in float64 (float64 (of_int m) + float64 (float64 (of_int ns) / (60 * 1000000000))))"

section \<open>Location.Delay\<close>

text \<open>
  The result is the float64 \<open>d\<close>; the named result starts at 0, and the bare \<open>return\<close>s
  return it as it is. \<open>Inl err\<close> is \<open>log.Fatal(err)\<close>. The scheduled time chosen in
  lines 167 to 174 is \<open>Some sched\<close>, and \<open>None\<close> is the \<open>return\<close> of line 173.
\<close>

definition Delay :: "Location \<Rightarrow> error + rat" where
  "Delay l =
     (if Arrival l \<noteq> Event0 then
        if AT (Arrival l) = [] then Inr 0
        else
          (case Parse (if length (AT (Arrival l)) = 5 then ''15:04'' else ''15:04:00'')
                  (AT (Arrival l)) of
             Inl err \<Rightarrow> Inl err
           | Inr actual \<Rightarrow>
               (case (if PTA l \<noteq> [] then Some (PTA l)
                      else if WTA l \<noteq> [] then Some (WTA l)
                      else None) of
                  None \<Rightarrow> Inr 0
                | Some sched \<Rightarrow>
                    (case Parse (if length sched = 5 then ''15:04'' else ''15:04:05'') sched of
                       Inl err \<Rightarrow> Inl err
                     | Inr est \<Rightarrow> Inr (Minutes (Sub actual est)))))
      else Inr 0)"

text \<open>
  Lines 176 to 189 of main.go for a given scheduled time: the delay of the parsed actual
  time against the string \<open>sched\<close>.
\<close>

definition Delay_against :: "Time \<Rightarrow> string \<Rightarrow> error + rat" where
  "Delay_against actual sched =
     (case Parse (if length sched = 5 then ''15:04'' else ''15:04:05'') sched of
        Inl err \<Rightarrow> Inl err
      | Inr est \<Rightarrow> Inr (Minutes (Sub actual est)))"

section \<open>Rendering\<close>

text \<open>
  \<open>fmt.Sprintf\<close> with \<open>%s\<close> on a string inserts it; on an \<open>Event\<close> or a \<open>Location\<close> it
  inserts the result of the \<open>String\<close> method. \<open>%f\<close> on a float64 writes it with six
  decimals, the exact value rounded half to even: \<open>fmt_f\<close>. \<open>decimal n\<close> is the
  decimal numeral of \<open>n\<close>, for \<open>0 \<le> n\<close>.
\<close>

function decimal :: "int \<Rightarrow> string" where
  "decimal n = (if n < 10 then [char_of (48 + n)] else decimal (n div 10) @ [char_of (48 + n mod 10)])"
  by pat_completeness auto
termination
  by (relation "measure nat") auto

declare decimal.simps [simp del]

definition fmt_f :: "rat \<Rightarrow> string" where
  "fmt_f x =
     (let n = round_even (\<bar>x\<bar> * 1000000);
          frac = decimal (n mod 1000000)
      in (if x < 0 then ''-'' else []) @ decimal (n div 1000000) @ ''.''
           @ replicate (6 - length frac) (CHR ''0'') @ frac)"

definition String_Event :: "Event \<Rightarrow> string" where
  "String_Event e =
     (let s = [];
          s = (if AT e \<noteq> [] then ''ACTUAL '' @ AT e @ '' '' else s);
          s = (if ET e \<noteq> [] then s @ ''ESTIMATED '' @ ET e @ '' '' else s);
          s = (if SRC e \<noteq> [] then s @ '' (Source: '' @ SRC e @ '')'' else s)
      in s)"

text \<open>
  \<open>Location.String\<close> up to the call of \<open>Delay\<close> (lines 105 to 137 of main.go), and then
  the whole method.
\<close>

definition String_Location_fields :: "Location \<Rightarrow> string" where
  "String_Location_fields l =
     (let s = [CHR 0x0A] @ ''-- '' @ TPL l;
          s = (if PTA l \<noteq> [] then s @ '' | Public Time Arrive: '' @ PTA l else s);
          s = (if PTD l \<noteq> [] then s @ '' | Public Time Depart: '' @ PTD l else s);
          s = (if WTA l \<noteq> [] then s @ '' | Working Time Arrive: '' @ WTA l else s);
          s = (if WTD l \<noteq> [] then s @ '' | Working Time Depart: '' @ WTD l else s);
          s = (if WTP l \<noteq> [] then s @ '' | Working Time Pass: '' @ WTP l else s);
          s = (if Arrival l \<noteq> Event0
               then s @ [CHR 0x0A, CHR 0x09] @ ''** Arr: '' @ String_Event (Arrival l) else s);
          s = (if Departure l \<noteq> Event0
               then s @ [CHR 0x0A, CHR 0x09] @ ''** Dep: '' @ String_Event (Departure l) else s);
          s = (if Pass l \<noteq> Event0
               then s @ [CHR 0x0A, CHR 0x09] @ ''** Pass: '' @ String_Event (Pass l) else s)
      in s)"

definition String_Location :: "Location \<Rightarrow> error + string" where
  "String_Location l =
     (let s = String_Location_fields l
      in case Delay l of
           Inl err \<Rightarrow> Inl err
         | Inr d \<Rightarrow>
             let s = (if 0 < d then s @ [CHR 0x0A] @ ''DELAY: '' @ fmt_f d else s)
             in Inr (s @ [CHR 0x0A]))"

text \<open>The loop of \<open>Timestamp.String\<close> over the locations, \<open>s\<close> the text so far.\<close>

fun String_Locations :: "string \<Rightarrow> Location list \<Rightarrow> error + string" where
  "String_Locations s [] = Inr s"
| "String_Locations s (l # ls) =
     (case String_Location l of
        Inl err \<Rightarrow> Inl err
      | Inr r \<Rightarrow> String_Locations (s @ [CHR 0x0A] @ r) ls)"

definition String_Timestamp :: "Timestamp \<Rightarrow> error + string" where
  "String_Timestamp t =
     (let s = [];
          s = (if RID t \<noteq> [] then ''RID: '' @ RID t @ '' '' else s);
          s = (if SSD t \<noteq> [] then ''SSD: '' @ SSD t @ '' '' else s);
          s = (if UID t \<noteq> [] then ''UID: '' @ UID t @ '' '' else s)
      in String_Locations s (Location t))"

definition String_UniqueResponse :: "UniqueResponse \<Rightarrow> error + string" where
  "String_UniqueResponse ur =
     (case String_Timestamp (TS ur) of
        Inl err \<Rightarrow> Inl err
      | Inr r \<Rightarrow> Inr ([CHR 0x0A] @ ''Update Origin: '' @ UO ur @ [CHR 0x0A, CHR 0x0A] @ r))"

definition String_Message :: "Message \<Rightarrow> error + string" where
  "String_Message r =
     (let s = ''['' @ Timestamp r @ '' v'' @ Version r @ '']:''
      in if UO (UR r) \<noteq> [] then
           (case String_UniqueResponse (UR r) of
              Inl err \<Rightarrow> Inl err
            | Inr u \<Rightarrow> Inr (s @ [CHR 0x0A, CHR 0x09] @ u))
         else Inr s)"

section \<open>The loop of main\<close>

text \<open>
  The body of the \<open>for\<close> loop of \<open>main\<close>, run over the messages that arrive: an item
  is \<open>Inl err\<close> when receiving, decompressing or unmarshalling it gives the error \<open>err\<close>
  (each is passed to \<open>log.Fatal\<close>), and \<open>Inr m\<close> when it decodes to the message \<open>m\<close>,
  which \<open>log.Printf("%s\n\n", m)\<close> then renders. The result is the list of the rendered
  messages, and the error of \<open>log.Fatal\<close> if the process has exited.
\<close>

fun run :: "(error + Message) list \<Rightarrow> string list \<times> error option" where
  "run [] = ([], None)"
| "run (Inl err # ms) = ([], Some err)"
| "run (Inr m # ms) =
     (case String_Message m of
        Inl err \<Rightarrow> ([], Some err)
      | Inr text \<Rightarrow> (case run ms of (out, r) \<Rightarrow> (text # out, r)))"

section \<open>Example inputs\<close>

text \<open>
  \<open>arrived tpl pta wta a\<close> is the Go value
  \<^verbatim>\<open>Location{TPL: tpl, PTA: pta, WTA: wta, Arrival: Event{AT: a}}\<close>
  and \<open>update l\<close> a message of origin \<open>Darwin\<close> whose only location is \<open>l\<close>.
\<close>

definition arrived :: "string \<Rightarrow> string \<Rightarrow> string \<Rightarrow> string \<Rightarrow> Location" where
  "arrived tpl pta wta a =
     \<lparr>TPL = tpl, PTA = pta, PTD = [], WTA = wta, WTD = [], WTP = [],
      Arrival = \<lparr>AT = a, ET = [], SRC = []\<rparr>, Departure = Event0, Pass = Event0\<rparr>"

definition update :: "Location \<Rightarrow> Message" where
  "update l =
     \<lparr>XMLNS = [], XMLNS2 = [], XMLNS3 = [], Timestamp = ''2019-03-01T10:08:00'',
      Version = ''16.0'',
      UR = \<lparr>UO = ''Darwin'', TS = \<lparr>RID = ''201903017101'', SSD = [], UID = [], Location = [l]\<rparr>\<rparr>\<rparr>"

section \<open>Evaluations and auxiliary facts\<close>

lemma Event0_AT: "AT e \<noteq> [] \<Longrightarrow> e \<noteq> Event0"
  by (auto simp: Event0_def)

lemma Delay_no_actual: "AT (Arrival l) = [] \<Longrightarrow> Delay l = Inr 0"
  by (simp add: Delay_def)

lemma Delay_actual:
  assumes "AT (Arrival l) \<noteq> []"
  shows "Delay l =
    (case Parse (if length (AT (Arrival l)) = 5 then ''15:04'' else ''15:04:00'') (AT (Arrival l)) of
       Inl err \<Rightarrow> Inl err
     | Inr actual \<Rightarrow>
         if PTA l \<noteq> [] then Delay_against actual (PTA l)
         else if WTA l \<noteq> [] then Delay_against actual (WTA l)
         else Inr 0)"
proof -
  from assms have "Arrival l \<noteq> Event0"
    by (rule Event0_AT)
  with assms show ?thesis
    by (simp add: Delay_def Delay_against_def split: sum.splits)
qed

lemma Parse_1007: "Parse ''15:04'' ''10:07'' = Inr \<lparr>hour = 10, minute = 7, sec = 0, nsec = 0\<rparr>"
  by code_simp

lemma Parse_1000: "Parse ''15:04'' ''10:00'' = Inr \<lparr>hour = 10, minute = 0, sec = 0, nsec = 0\<rparr>"
  by code_simp

lemma Parse_0905: "Parse ''15:04'' ''09:05'' = Inr \<lparr>hour = 9, minute = 5, sec = 0, nsec = 0\<rparr>"
  by code_simp

lemma Parse_bad_minute:
  "Parse ''15:04:00'' ''10:7'' = Inl (ParseError ''15:04:00'' ''10:7'' ''04'' ''7'' NoMessage)"
  by code_simp

lemma against_1000: "Delay_against \<lparr>hour = 10, minute = 7, sec = 0, nsec = 0\<rparr> ''10:00'' = Inr 7"
  by code_simp

lemma against_100130:
  "Delay_against \<lparr>hour = 10, minute = 7, sec = 0, nsec = 0\<rparr> ''10:01:30'' = Inr (11 / 2)"
  by code_simp

text \<open>The float64 nearest to one tenth is \<open>0x1.999999999999ap-4\<close>; whole numbers are exact.\<close>

lemma float64_tenth: "float64 (1 / 10) = 3602879701896397 / 2 ^ 55"
  by code_simp

lemma float64_seven: "float64 7 = 7"
  by code_simp

lemma Minutes_0: "Minutes 0 = 0"
  by code_simp

lemma Minutes_7: "Minutes 420000000000 = 7"
  by code_simp

lemma fmt_f_7: "fmt_f 7 = ''7.000000''"
  by code_simp

lemma Sub_same: "Sub t t = 0"
  by (simp add: Sub_def)

lemma Delay_early: "Delay (arrived ''CREWE'' ''10:00'' [] ''09:58'') = Inr (- 2)"
  by code_simp

lemma Delay_on_time: "Delay (arrived ''CREWE'' ''09:05'' [] ''09:05'') = Inr 0"
  by code_simp

lemma Delay_late: "Delay (arrived ''CREWE'' ''10:00:20'' [] ''10:07'') = Inr (7505999378950827 / 1125899906842624)"
  by code_simp

lemma fmt_f_late: "fmt_f (7505999378950827 / 1125899906842624) = ''6.666667''"
  by code_simp

lemma Delay_malformed:
  "Delay (arrived ''CREWE'' ''10:00'' [] ''9:5'') =
     Inl (ParseError ''15:04:00'' ''9:5'' ''04'' ''5'' NoMessage)"
  by code_simp

lemma String_Location_Inr:
  "Delay l = Inr d \<Longrightarrow>
   String_Location l =
     Inr (String_Location_fields l @ (if 0 < d then ''\<newline>DELAY: '' @ fmt_f d else []) @ ''\<newline>'')"
  by (simp add: String_Location_def)

lemma String_Location_Inl: "Delay l = Inl err \<Longrightarrow> String_Location l = Inl err"
  by (simp add: String_Location_def)

text \<open>A location whose \<open>Delay\<close> is fatal makes the rendering of the whole message fatal.\<close>

lemma String_Locations_fatal:
  "l \<in> set ls \<Longrightarrow> Delay l = Inl err \<Longrightarrow>
   \<exists>l' err'. l' \<in> set ls \<and> Delay l' = Inl err' \<and> String_Locations s ls = Inl err'"
proof (induction ls arbitrary: s)
  case Nil
  then show ?case by simp
next
  case (Cons x xs)
  show ?case
  proof (cases "Delay x")
    case (Inl e)
    then have "String_Locations s (x # xs) = Inl e"
      by (simp add: String_Location_Inl)
    with Inl show ?thesis
      by auto
  next
    case (Inr d)
    from String_Location_Inr [OF this] obtain r where r: "String_Location x = Inr r"
      by blast
    from Inr Cons.prems have "l \<in> set xs"
      by auto
    from Cons.IH [OF this Cons.prems(2), of "s @ [CHR 0x0A] @ r"] obtain l' err' where
      "l' \<in> set xs" "Delay l' = Inl err'" "String_Locations (s @ [CHR 0x0A] @ r) xs = Inl err'"
      by blast
    with r show ?thesis
      by auto
  qed
qed

lemma String_Timestamp_fatal:
  assumes "l \<in> set (Location t)" and "Delay l = Inl err"
  shows "\<exists>l' err'. l' \<in> set (Location t) \<and> Delay l' = Inl err' \<and> String_Timestamp t = Inl err'"
  unfolding String_Timestamp_def Let_def
  by (rule String_Locations_fatal [OF assms])

lemma String_Message_fatal:
  assumes "UO (UR m) \<noteq> []" and "l \<in> set (Location (TS (UR m)))" and "Delay l = Inl err"
  shows "\<exists>l' err'. l' \<in> set (Location (TS (UR m))) \<and> Delay l' = Inl err' \<and>
           String_Message m = Inl err'"
proof -
  from String_Timestamp_fatal [OF assms(2,3)] obtain l' err' where
    *: "l' \<in> set (Location (TS (UR m)))" "Delay l' = Inl err'"
       "String_Timestamp (TS (UR m)) = Inl err'"
    by blast
  from *(3) assms(1) have "String_Message m = Inl err'"
    by (simp add: String_Message_def String_UniqueResponse_def)
  with * show ?thesis
    by blast
qed

lemma run_append:
  "run pre = (out, None) \<Longrightarrow> run (pre @ xs) = (case run xs of (out', r) \<Rightarrow> (out @ out', r))"
proof (induction pre arbitrary: out)
  case Nil
  then show ?case by simp
next
  case (Cons x pre)
  then show ?case
    by (cases x) (auto split: sum.splits prod.splits)
qed

lemma run_on_time:
  "run [Inr (update (arrived ''CREWE'' ''10:00'' [] ''10:07''))] =
     ([''[2019-03-01T10:08:00 v16.0]:\<newline>'' @ [CHR 0x09] @
       ''\<newline>Update Origin: Darwin\<newline>\<newline>RID: 201903017101 \<newline>'' @
       ''\<newline>-- CREWE | Public Time Arrive: 10:00\<newline>'' @ [CHR 0x09] @
       ''** Arr: ACTUAL 10:07 \<newline>DELAY: 7.000000\<newline>''], None)"
  by code_simp

section \<open>The reference time of Delay (C1)\<close>

text \<open>
  The claim as it is written fails where the actual time does not parse: the location
  \<^verbatim>\<open>Location{TPL: "CREWE", Arrival: Event{AT: "9:5"}}\<close> has a non-empty actual time and
  neither \<open>PTA\<close> nor \<open>WTA\<close>, and \<open>Delay\<close> does not return the undefined result: it
  stops in \<open>log.Fatal\<close> at line 164, before the scheduled times are looked at.
\<close>

theorem Delay_reference_counterexample:
  "AT (Arrival (arrived ''CREWE'' [] [] ''9:5'')) \<noteq> [] \<and>
   PTA (arrived ''CREWE'' [] [] ''9:5'') = [] \<and>
   WTA (arrived ''CREWE'' [] [] ''9:5'') = [] \<and>
   Delay (arrived ''CREWE'' [] [] ''9:5'') =
     Inl (ParseError ''15:04:00'' ''9:5'' ''04'' ''5'' NoMessage)"
  by code_simp

text \<open>
  C1 (amended). For every Location whose Arrival event has a non-empty actual time:
  when the actual time does not parse, \<open>Delay\<close> ends in \<open>log.Fatal\<close> with the parse
  error, whatever the scheduled times are; when it parses, the scheduled reference time
  is \<open>PTA\<close> if \<open>PTA\<close> is non-empty, otherwise \<open>WTA\<close> if \<open>WTA\<close> is non-empty, and
  with both empty \<open>Delay\<close> returns its undefined result 0.
\<close>

theorem Delay_reference_time:
  assumes "AT (Arrival l) \<noteq> []"
  shows
    "(\<forall>err. Parse (if length (AT (Arrival l)) = 5 then ''15:04'' else ''15:04:00'')
              (AT (Arrival l)) = Inl err
        \<longrightarrow> Delay l = Inl err) \<and>
     (\<forall>actual. Parse (if length (AT (Arrival l)) = 5 then ''15:04'' else ''15:04:00'')
              (AT (Arrival l)) = Inr actual
        \<longrightarrow> Delay l =
             (if PTA l \<noteq> [] then Delay_against actual (PTA l)
              else if WTA l \<noteq> [] then Delay_against actual (WTA l)
              else Inr 0))"
  by (simp add: Delay_actual [OF assms])

theorem Delay_reference_time_witness:
  "Delay (arrived ''CREWE'' ''10:00'' ''10:01:30'' ''10:07'') = Inr 7 \<and>
   Delay (arrived ''CREWE'' [] ''10:01:30'' ''10:07'') = Inr (11 / 2) \<and>
   Delay (arrived ''CREWE'' [] [] ''10:07'') = Inr 0 \<and>
   Delay (arrived ''CREWE'' ''10:00'' ''10:01:30'' ''10:7'') =
     Inl (ParseError ''15:04:00'' ''10:7'' ''04'' ''7'' NoMessage)"
proof -
  have "Delay (arrived ''CREWE'' ''10:00'' ''10:01:30'' ''10:07'') = Inr 7"
    using Delay_reference_time [of "arrived ''CREWE'' ''10:00'' ''10:01:30'' ''10:07''"]
    by (simp add: arrived_def Parse_1007 against_1000)
  moreover have "Delay (arrived ''CREWE'' [] ''10:01:30'' ''10:07'') = Inr (11 / 2)"
    using Delay_reference_time [of "arrived ''CREWE'' [] ''10:01:30'' ''10:07''"]
    by (simp add: arrived_def Parse_1007 against_100130)
  moreover have "Delay (arrived ''CREWE'' [] [] ''10:07'') = Inr 0"
    using Delay_reference_time [of "arrived ''CREWE'' [] [] ''10:07''"]
    by (simp add: arrived_def Parse_1007)
  moreover have "Delay (arrived ''CREWE'' ''10:00'' ''10:01:30'' ''10:7'') =
     Inl (ParseError ''15:04:00'' ''10:7'' ''04'' ''7'' NoMessage)"
    using Delay_reference_time [of "arrived ''CREWE'' ''10:00'' ''10:01:30'' ''10:7''"]
    by (simp add: arrived_def Parse_bad_minute)
  ultimately show ?thesis
    by simp
qed

section \<open>The undefined delay and the delay of zero (C2)\<close>

text \<open>
  \<open>Delay\<close> returns a plain float64. A location with a scheduled time and no actual
  arrival (no delay computable) and a location that arrived exactly on time (a delay of
  zero minutes) give the same result, so a caller cannot tell them apart.
\<close>

theorem Delay_zero_counterexample:
  "Delay (arrived ''CREWE'' ''09:05'' [] []) = Inr 0 \<and>
   Delay (arrived ''CREWE'' ''09:05'' [] ''09:05'') = Inr 0"
  by code_simp

text \<open>
  C2 (amended). The undefined outcome of \<open>Delay\<close> is the float64 0, the value of a
  genuine delay of zero minutes: \<open>Delay\<close> returns 0 for every Location \<open>l\<close> with no
  delay computable (absent Arrival, empty actual time, or a parsed actual time and neither
  \<open>PTA\<close> nor \<open>WTA\<close>), and it returns 0 for every Location \<open>l'\<close> whose actual time
  and scheduled reference time (\<open>PTA\<close>, or \<open>WTA\<close> when \<open>PTA\<close> is empty) both parse,
  each with the layout of its side, and are the same time of day.
\<close>

theorem Delay_zero_overloaded:
  assumes undefined:
      "Arrival l = Event0 \<or> AT (Arrival l) = [] \<or>
       (PTA l = [] \<and> WTA l = [] \<and>
        Parse (if length (AT (Arrival l)) = 5 then ''15:04'' else ''15:04:00'') (AT (Arrival l))
          = Inr t)"
    and actual: "AT (Arrival l') \<noteq> []"
      "Parse (if length (AT (Arrival l')) = 5 then ''15:04'' else ''15:04:00'') (AT (Arrival l'))
         = Inr ta"
    and sched: "PTA l' \<noteq> [] \<or> WTA l' \<noteq> []"
      "Parse (if length (if PTA l' \<noteq> [] then PTA l' else WTA l') = 5 then ''15:04'' else ''15:04:05'')
         (if PTA l' \<noteq> [] then PTA l' else WTA l') = Inr ts"
    and same: "nanos ta = nanos ts"
  shows "Delay l = Inr 0 \<and> Delay l' = Inr 0"
proof
  show "Delay l = Inr 0"
  proof (cases "AT (Arrival l) = []")
    case True
    then show ?thesis
      by (rule Delay_no_actual)
  next
    case False
    then have "Arrival l \<noteq> Event0"
      by (rule Event0_AT)
    with False undefined show ?thesis
      by (simp add: Delay_actual)
  qed
next
  from same have zero: "Minutes (Sub ta ts) = 0"
    by (simp add: Sub_def Minutes_0)
  show "Delay l' = Inr 0"
  proof (cases "PTA l' = []")
    case True
    with sched have "WTA l' \<noteq> []"
        and "Parse (if length (WTA l') = 5 then ''15:04'' else ''15:04:05'') (WTA l') = Inr ts"
      by simp_all
    with True actual zero show ?thesis
      by (simp add: Delay_actual Delay_against_def)
  next
    case False
    with sched have "Parse (if length (PTA l') = 5 then ''15:04'' else ''15:04:05'') (PTA l') = Inr ts"
      by simp
    with False actual zero show ?thesis
      by (simp add: Delay_actual Delay_against_def)
  qed
qed

theorem Delay_zero_overloaded_witness:
  "Delay (arrived ''CREWE'' [] [] ''10:07'') = Inr 0 \<and>
   Delay (arrived ''CREWE'' ''09:05'' [] ''09:05'') = Inr 0 \<and>
   Delay (arrived ''CREWE'' [] ''10:07:00'' ''10:07'') = Inr 0 \<and>
   Delay (arrived ''CREWE'' ''10:07'' [] ''10:07:00'') = Inr 0"
proof -
  let ?t = "\<lparr>hour = 10, minute = 7, sec = 0, nsec = 0\<rparr>"
  let ?u = "\<lparr>hour = 9, minute = 5, sec = 0, nsec = 0\<rparr>"
  have a: "Parse ''15:04:00'' ''10:07:00'' = Inr ?t"
    by code_simp
  have s: "Parse ''15:04:05'' ''10:07:00'' = Inr ?t"
    by code_simp
  have "Delay (arrived ''CREWE'' [] [] ''10:07'') = Inr 0 \<and>
        Delay (arrived ''CREWE'' ''09:05'' [] ''09:05'') = Inr 0"
    using Delay_zero_overloaded [of "arrived ''CREWE'' [] [] ''10:07''" ?t
        "arrived ''CREWE'' ''09:05'' [] ''09:05''" ?u ?u]
    by (simp add: arrived_def Parse_1007 Parse_0905)
  moreover have "Delay (arrived ''CREWE'' [] ''10:07:00'' ''10:07'') = Inr 0"
    using Delay_zero_overloaded [of "arrived ''CREWE'' [] [] ''10:07''" ?t
        "arrived ''CREWE'' [] ''10:07:00'' ''10:07''" ?t ?t]
    by (simp add: arrived_def Parse_1007 s)
  moreover have "Delay (arrived ''CREWE'' ''10:07'' [] ''10:07:00'') = Inr 0"
    using Delay_zero_overloaded [of "arrived ''CREWE'' [] [] ''10:07''" ?t
        "arrived ''CREWE'' ''10:07'' [] ''10:07:00''" ?t ?t]
    by (simp add: arrived_def Parse_1007 a)
  ultimately show ?thesis
    by simp
qed

section \<open>A time that does not parse (C3)\<close>

text \<open>
  A message whose location has the actual time \<open>9:5\<close> ends the process in \<open>log.Fatal\<close>:
  the message after it, which alone is rendered with its delay, is never processed.
\<close>

theorem fatal_blocks_counterexample:
  "run [Inr (update (arrived ''CREWE'' ''10:00'' [] ''9:5'')),
        Inr (update (arrived ''CREWE'' ''10:00'' [] ''10:07''))] =
     ([], Some (ParseError ''15:04:00'' ''9:5'' ''04'' ''5'' NoMessage)) \<and>
   run [Inr (update (arrived ''CREWE'' ''10:00'' [] ''10:07''))] =
     ([''[2019-03-01T10:08:00 v16.0]:\<newline>'' @ [CHR 0x09] @
       ''\<newline>Update Origin: Darwin\<newline>\<newline>RID: 201903017101 \<newline>'' @
       ''\<newline>-- CREWE | Public Time Arrive: 10:00\<newline>'' @ [CHR 0x09] @
       ''** Arr: ACTUAL 10:07 \<newline>DELAY: 7.000000\<newline>''], None)"
  by code_simp

text \<open>
  C3 (amended). A time string that does not parse is never turned into a delay of zero:
  \<open>Delay\<close> ends in \<open>log.Fatal\<close>, which exits the process. So the error is fatal to the
  message being rendered and to every message after it: when the messages before \<open>m\<close>
  have been rendered and a location of \<open>m\<close> (a message with an update origin) has a
  fatal \<open>Delay\<close>, the run ends at \<open>m\<close> with the parse error of one of its locations,
  whatever messages follow.
\<close>

theorem fatal_ends_run:
  assumes "run pre = (out, None)" and "UO (UR m) \<noteq> []"
    and "l \<in> set (Location (TS (UR m)))" and "Delay l = Inl err"
  shows "\<exists>l' err'. l' \<in> set (Location (TS (UR m))) \<and> Delay l' = Inl err' \<and>
           run (pre @ Inr m # rest) = (out, Some err')"
proof -
  from String_Message_fatal [OF assms(2,3,4)] obtain l' err' where
    *: "l' \<in> set (Location (TS (UR m)))" "Delay l' = Inl err'" "String_Message m = Inl err'"
    by blast
  then have "run (Inr m # rest) = ([], Some err')"
    by simp
  with run_append [OF assms(1)] have "run (pre @ Inr m # rest) = (out, Some err')"
    by simp
  with * show ?thesis
    by blast
qed

theorem fatal_ends_run_witness:
  "run [Inr (update (arrived ''CREWE'' ''10:00'' [] ''10:07'')),
        Inr (update (arrived ''CREWE'' ''10:00'' [] ''9:5'')),
        Inr (update (arrived ''CREWE'' ''10:00'' [] ''10:07''))] =
     ([''[2019-03-01T10:08:00 v16.0]:\<newline>'' @ [CHR 0x09] @
       ''\<newline>Update Origin: Darwin\<newline>\<newline>RID: 201903017101 \<newline>'' @
       ''\<newline>-- CREWE | Public Time Arrive: 10:00\<newline>'' @ [CHR 0x09] @
       ''** Arr: ACTUAL 10:07 \<newline>DELAY: 7.000000\<newline>''],
      Some (ParseError ''15:04:00'' ''9:5'' ''04'' ''5'' NoMessage))"
proof -
  let ?bad = "arrived ''CREWE'' ''10:00'' [] ''9:5''"
  let ?good = "update (arrived ''CREWE'' ''10:00'' [] ''10:07'')"
  have "UO (UR (update ?bad)) \<noteq> []" and "?bad \<in> set (Location (TS (UR (update ?bad))))"
    by (simp_all add: update_def)
  from fatal_ends_run [OF run_on_time this Delay_malformed, of "[Inr ?good]"]
  obtain l' err' where
    "l' \<in> set (Location (TS (UR (update ?bad))))" and "Delay l' = Inl err'"
    and r: "run ([Inr ?good] @ Inr (update ?bad) # [Inr ?good]) =
      ([''[2019-03-01T10:08:00 v16.0]:\<newline>'' @ [CHR 0x09] @
       ''\<newline>Update Origin: Darwin\<newline>\<newline>RID: 201903017101 \<newline>'' @
       ''\<newline>-- CREWE | Public Time Arrive: 10:00\<newline>'' @ [CHR 0x09] @
       ''** Arr: ACTUAL 10:07 \<newline>DELAY: 7.000000\<newline>''], Some err')"
    by blast
  then have "Delay ?bad = Inl err'"
    by (simp add: update_def)
  with Delay_malformed have "err' = ParseError ''15:04:00'' ''9:5'' ''04'' ''5'' NoMessage"
    by simp
  with r show ?thesis
    by simp
qed

section \<open>The layouts with seconds (C4)\<close>

text \<open>
  C4. For a string that is not five bytes long the actual side parses with the layout
  \<open>"15:04:00"\<close>, whose \<open>":00"\<close> is literal text, and the scheduled side with
  \<open>"15:04:05"\<close>: an actual time with seconds other than \<open>00\<close> is fatal, while the same
  form of time parses on the scheduled side.
\<close>

theorem actual_seconds_fatal:
  "Delay (arrived ''CREWE'' ''10:00:00'' [] ''10:07:30'') =
     Inl (ParseError ''15:04:00'' ''10:07:30'' '':00'' ''30'' NoMessage) \<and>
   Delay (arrived ''CREWE'' ''10:00:30'' [] ''10:07:00'') = Inr (13 / 2)"
  by code_simp

section \<open>The identifiers of a Timestamp (C5)\<close>

text \<open>
  C5. \<open>Timestamp.String\<close> assigns the text of each identifier to \<open>s\<close> without keeping
  what \<open>s\<close> held: of the non-empty identifiers only the last one (in the order RID, SSD,
  UID) is rendered.
\<close>

theorem Timestamp_identifiers_overwritten:
  "String_Timestamp \<lparr>RID = ''201903017101'', SSD = ''2019-03-01'', UID = ''C12345'', Location = []\<rparr>
     = Inr ''UID: C12345 '' \<and>
   String_Timestamp \<lparr>RID = ''201903017101'', SSD = [], UID = ''C12345'', Location = []\<rparr>
     = Inr ''UID: C12345 ''"
  by (simp add: String_Timestamp_def)

section \<open>The delay annotation (C6, C7, C9)\<close>

text \<open>
  C6. For every Location whose \<open>Delay\<close> returns \<open>d\<close>, the rendered text is the text of
  the fields followed by the annotation line \<open>DELAY: d\<close> if and only if \<open>0 < d\<close>, and it
  is the text of the fields followed by the final newline alone if and only if \<open>d\<close> is
  negative or zero.
\<close>

theorem delay_annotation_iff:
  assumes "Delay l = Inr d"
  shows "\<exists>r. String_Location l = Inr r \<and>
    (r = String_Location_fields l @ ''\<newline>DELAY: '' @ fmt_f d @ ''\<newline>'' \<longleftrightarrow> 0 < d) \<and>
    (r = String_Location_fields l @ ''\<newline>'' \<longleftrightarrow> \<not> 0 < d)"
  using String_Location_Inr [OF assms] by auto

theorem delay_annotation_iff_witness:
  "Delay (arrived ''CREWE'' ''10:00'' [] ''09:58'') = Inr (- 2) \<and>
   String_Location (arrived ''CREWE'' ''10:00'' [] ''09:58'') =
     Inr (''\<newline>-- CREWE | Public Time Arrive: 10:00\<newline>'' @ [CHR 0x09] @
          ''** Arr: ACTUAL 09:58 \<newline>'') \<and>
   String_Location (arrived ''CREWE'' ''09:05'' [] ''09:05'') =
     Inr (''\<newline>-- CREWE | Public Time Arrive: 09:05\<newline>'' @ [CHR 0x09] @
          ''** Arr: ACTUAL 09:05 \<newline>'') \<and>
   String_Location (arrived ''CREWE'' ''10:00:20'' [] ''10:07'') =
     Inr (''\<newline>-- CREWE | Public Time Arrive: 10:00:20\<newline>'' @ [CHR 0x09] @
          ''** Arr: ACTUAL 10:07 \<newline>DELAY: 6.666667\<newline>'')"
proof -
  have "String_Location (arrived ''CREWE'' ''10:00'' [] ''09:58'') =
     Inr (''\<newline>-- CREWE | Public Time Arrive: 10:00\<newline>'' @ [CHR 0x09] @
          ''** Arr: ACTUAL 09:58 \<newline>'')"
    using delay_annotation_iff [OF Delay_early]
    by (auto simp: arrived_def String_Location_fields_def String_Event_def Event0_def)
  moreover have "String_Location (arrived ''CREWE'' ''09:05'' [] ''09:05'') =
     Inr (''\<newline>-- CREWE | Public Time Arrive: 09:05\<newline>'' @ [CHR 0x09] @
          ''** Arr: ACTUAL 09:05 \<newline>'')"
    using delay_annotation_iff [OF Delay_on_time]
    by (auto simp: arrived_def String_Location_fields_def String_Event_def Event0_def)
  moreover have "String_Location (arrived ''CREWE'' ''10:00:20'' [] ''10:07'') =
     Inr (''\<newline>-- CREWE | Public Time Arrive: 10:00:20\<newline>'' @ [CHR 0x09] @
          ''** Arr: ACTUAL 10:07 \<newline>DELAY: 6.666667\<newline>'')"
    using delay_annotation_iff [OF Delay_late]
    by (auto simp: arrived_def String_Location_fields_def String_Event_def Event0_def fmt_f_late)
  ultimately show ?thesis
    using Delay_early by simp
qed

text \<open>
  C7. For every Location with \<open>PTA\<close> \<open>"10:00"\<close> and an Arrival event with the actual
  time \<open>"10:07"\<close>, \<open>Delay\<close> returns exactly 7, and the rendered text ends with the
  annotation line \<open>DELAY: 7.000000\<close>.
\<close>

theorem scenario_A:
  assumes "PTA l = ''10:00''" and "AT (Arrival l) = ''10:07''"
  shows "Delay l = Inr 7 \<and>
    String_Location l = Inr (String_Location_fields l @ ''\<newline>DELAY: 7.000000\<newline>'')"
proof -
  have "Sub \<lparr>hour = 10, minute = 7, sec = 0, nsec = 0\<rparr> \<lparr>hour = 10, minute = 0, sec = 0, nsec = 0\<rparr>
          = 420000000000"
    by (simp add: Sub_def nanos_def)
  with assms have d: "Delay l = Inr 7"
    by (simp add: Delay_actual Delay_against_def Parse_1007 Parse_1000 Minutes_7)
  from String_Location_Inr [OF d] have
    "String_Location l = Inr (String_Location_fields l @ ''\<newline>DELAY: 7.000000\<newline>'')"
    by (simp add: fmt_f_7)
  with d show ?thesis
    by simp
qed

theorem scenario_A_witness:
  "Delay (arrived ''CREWE'' ''10:00'' [] ''10:07'') = Inr 7 \<and>
   String_Location (arrived ''CREWE'' ''10:00'' [] ''10:07'') =
     Inr (''\<newline>-- CREWE | Public Time Arrive: 10:00\<newline>'' @ [CHR 0x09] @
          ''** Arr: ACTUAL 10:07 \<newline>DELAY: 7.000000\<newline>'')"
  using scenario_A [of "arrived ''CREWE'' ''10:00'' [] ''10:07''"]
  by (simp add: arrived_def String_Location_fields_def String_Event_def Event0_def)

text \<open>
  C9. A Location with every optional field empty (no scheduled time, no event) is
  rendered as its location code alone, on a line of its own that starts with the marker
  \<open>--\<close> of every location line and ends with the newline: no field, no event and no
  \<open>DELAY\<close> annotation.
\<close>

theorem String_Location_bare:
  assumes "PTA l = []" and "PTD l = []" and "WTA l = []" and "WTD l = []" and "WTP l = []"
    and "Arrival l = Event0" and "Departure l = Event0" and "Pass l = Event0"
  shows "String_Location l = Inr (''\<newline>-- '' @ TPL l @ ''\<newline>'')"
proof -
  from assms have "Delay l = Inr 0"
    by (simp add: Delay_def)
  from String_Location_Inr [OF this] assms show ?thesis
    by (simp add: String_Location_fields_def)
qed

theorem String_Location_bare_witness:
  "String_Location \<lparr>TPL = ''CREWE'', PTA = [], PTD = [], WTA = [], WTD = [], WTP = [],
      Arrival = Event0, Departure = Event0, Pass = Event0\<rparr> = Inr ''\<newline>-- CREWE\<newline>''"
  using String_Location_bare
    [of "\<lparr>TPL = ''CREWE'', PTA = [], PTD = [], WTA = [], WTD = [], WTP = [],
      Arrival = Event0, Departure = Event0, Pass = Event0\<rparr>"]
  by simp

section \<open>What Delay reads (C8, C10)\<close>

text \<open>
  C8. For every Location whose Arrival event is absent (the zero value \<open>Event{}\<close>) or
  whose Arrival event has an empty actual time, \<open>Delay\<close> returns its undefined outcome,
  the untouched result 0: no time is parsed, and the estimated time \<open>ET\<close> is never read.
\<close>

theorem Delay_absent_arrival:
  "Arrival l = Event0 \<or> AT (Arrival l) = [] \<Longrightarrow> Delay l = Inr 0"
  by (auto simp: Delay_def)

theorem Delay_absent_arrival_witness:
  "Delay \<lparr>TPL = ''CREWE'', PTA = ''10:00'', PTD = ''10:02'', WTA = ''10:00:30'', WTD = [], WTP = [],
      Arrival = \<lparr>AT = [], ET = ''10:07'', SRC = ''Darwin''\<rparr>,
      Departure = Event0, Pass = Event0\<rparr> = Inr 0"
  by (rule Delay_absent_arrival) simp

text \<open>
  C10. \<open>Delay\<close> depends only on the actual time of the Arrival event, on \<open>PTA\<close> and on
  \<open>WTA\<close>: two Locations that agree on these three strings have the same result (the same
  delay, or the same fatal error), whatever their other fields are.
\<close>

theorem Delay_depends_only:
  assumes "AT (Arrival l1) = AT (Arrival l2)" and "PTA l1 = PTA l2" and "WTA l1 = WTA l2"
  shows "Delay l1 = Delay l2"
proof (cases "AT (Arrival l1) = []")
  case True
  with assms show ?thesis
    by (simp add: Delay_no_actual)
next
  case False
  with assms have l2: "AT (Arrival l2) \<noteq> []"
    by simp
  show ?thesis
    unfolding Delay_actual [OF False] Delay_actual [OF l2] assms
    by (rule refl)
qed

theorem Delay_depends_only_witness:
  "Delay \<lparr>TPL = ''CREWE'', PTA = ''10:00'', PTD = ''10:02'', WTA = ''10:00:30'', WTD = ''10:02'', WTP = [],
      Arrival = \<lparr>AT = ''10:07'', ET = ''10:05'', SRC = ''Darwin''\<rparr>,
      Departure = \<lparr>AT = ''10:09'', ET = [], SRC = []\<rparr>, Pass = Event0\<rparr>
   = Delay (arrived ''STAFFRD'' ''10:00'' ''10:00:30'' ''10:07'')"
  by (rule Delay_depends_only) (simp_all add: arrived_def)

end
